theory Spec2Isabelle
  imports Main "HOL-Library.Sublist"
begin

section \<open>Python strings\<close>

text \<open>
  A Python \<open>str\<close> is a sequence of code points and \<open>len\<close> counts code points.
  The model takes \<^typ>\<open>char\<close> as a code point of the range U+0000..U+00FF (Latin-1), not
  as a UTF-8 byte: \<open>CHR 0xED\<close> is the single character i-acute of "noticias" with
  its accent.  Every literal of the program and all Portuguese text lies in this range,
  and \<open>str.lower\<close> maps the range into itself, one character at a time.  Text with
  code points above U+00FF is outside the model.
\<close>

definition NL :: string where
  "NL = [CHR 0x0A]"

text \<open>\<open>sub in s\<close>: \<open>sub\<close> occurs in \<open>s\<close> as a contiguous run.\<close>

fun py_in :: "string \<Rightarrow> string \<Rightarrow> bool" where
  "py_in sub [] = (sub = [])"
| "py_in sub (c # cs) = (prefix sub (c # cs) \<or> py_in sub cs)"

text \<open>\<open>s.startswith(p)\<close>\<close>

definition startswith :: "string \<Rightarrow> string \<Rightarrow> bool" where
  "startswith s p = prefix p s"

text \<open>
  \<open>str.lower\<close> on U+0000..U+00FF: the letters A..Z and the accented capitals
  U+00C0..U+00DE (the multiplication sign U+00D7 apart) move up by 32; every other
  character of the range is its own lower case.
\<close>

definition lower_char :: "char \<Rightarrow> char" where
  "lower_char c =
     (let n = (of_char c :: nat)
      in if (65 \<le> n \<and> n \<le> 90) \<or> (192 \<le> n \<and> n \<le> 222 \<and> n \<noteq> 215)
         then char_of (n + 32) else c)"

definition py_lower :: "string \<Rightarrow> string" where
  "py_lower s = map lower_char s"

text \<open>
  \<open>str.isspace\<close> on U+0000..U+00FF: tab, line feed, vertical tab, form feed, carriage
  return, the separators U+001C..U+001F, space, next line U+0085 and no-break space
  U+00A0.
\<close>

definition isspace :: "char \<Rightarrow> bool" where
  "isspace c =
     (let n = (of_char c :: nat)
      in (9 \<le> n \<and> n \<le> 13) \<or> (28 \<le> n \<and> n \<le> 32) \<or> n = 133 \<or> n = 160)"

text \<open>\<open>s.strip()\<close>: leading and trailing white space removed.\<close>

definition py_strip :: "string \<Rightarrow> string" where
  "py_strip s = rev (dropWhile isspace (rev (dropWhile isspace s)))"

text \<open>
  \<open>s.replace(old, new)\<close>: every occurrence of \<open>old\<close>, found from the left and not
  overlapping, becomes \<open>new\<close>.  With an empty \<open>old\<close> Python puts \<open>new\<close> before
  every character and at the end.
\<close>

function py_replace_ne :: "string \<Rightarrow> string \<Rightarrow> string \<Rightarrow> string" where
  "py_replace_ne [] old new = []"
| "py_replace_ne (c # cs) old new =
     (if old \<noteq> [] \<and> prefix old (c # cs)
      then new @ py_replace_ne (drop (length old) (c # cs)) old new
      else c # py_replace_ne cs old new)"
  by pat_completeness auto
termination
  by (relation "measure (\<lambda>(s, old, new). length s)") (auto simp: neq_Nil_conv)

definition py_replace :: "string \<Rightarrow> string \<Rightarrow> string \<Rightarrow> string" where
  "py_replace s old new =
     (if old = [] then new @ concat (map (\<lambda>c. c # new) s)
      else py_replace_ne s old new)"

text \<open>\<open>sep.join(xs)\<close>\<close>

fun py_join :: "string \<Rightarrow> string list \<Rightarrow> string" where
  "py_join sep [] = []"
| "py_join sep [x] = x"
| "py_join sep (x # y # ys) = x @ sep @ py_join sep (y # ys)"

text \<open>\<open>str(n)\<close> for an integer: decimal digits, a minus sign before a negative one.\<close>

definition digit_char :: "nat \<Rightarrow> char" where
  "digit_char d = char_of (48 + d)"

function str_nat :: "nat \<Rightarrow> string" where
  "str_nat n = (if n < 10 then [digit_char n] else str_nat (n div 10) @ [digit_char (n mod 10)])"
  by pat_completeness auto
termination
  by (relation "measure id") auto

definition str_int :: "int \<Rightarrow> string" where
  "str_int i = (if i < 0 then CHR ''-'' # str_nat (nat (- i)) else str_nat (nat i))"

section \<open>The usage accumulator\<close>

text \<open>
  The values a provider's \<open>llm_output\<close> dictionary can hold, as far as
  \<open>on_llm_end\<close> looks at them: \<open>None\<close>, integers, strings and dictionaries (in their
  order of insertion).
\<close>

datatype pyval = PyNone | PyInt int | PyStr string | PyDict "(string \<times> pyval) list"

datatype py_error = AttributeError | TypeError

text \<open>
  The completion result handed to the callback.  \<open>llm_output = None\<close> is a response
  object without that attribute (\<open>hasattr\<close> is false); \<open>Some PyNone\<close> is the attribute
  holding \<open>None\<close>.
\<close>

record response =
  llm_output :: "pyval option"

record TokenCounterCallback =
  total_tokens :: int
  prompt_tokens :: int
  completion_tokens :: int

definition init_counter :: TokenCounterCallback where
  "init_counter = \<lparr>total_tokens = 0, prompt_tokens = 0, completion_tokens = 0\<rparr>"

text \<open>Python's truth value of an object.\<close>

fun truthy :: "pyval \<Rightarrow> bool" where
  "truthy PyNone = False"
| "truthy (PyInt n) = (n \<noteq> 0)"
| "truthy (PyStr s) = (s \<noteq> [])"
| "truthy (PyDict d) = (d \<noteq> [])"

text \<open>\<open>d.get(k, default)\<close>; only a dictionary has the method.\<close>

fun py_get :: "pyval \<Rightarrow> string \<Rightarrow> pyval \<Rightarrow> py_error + pyval" where
  "py_get (PyDict d) k dflt = Inr (case map_of d k of None \<Rightarrow> dflt | Some v \<Rightarrow> v)"
| "py_get _ k dflt = Inl AttributeError"

text \<open>\<open>n + v\<close> for an integer \<open>n\<close>: defined when \<open>v\<close> is an integer.\<close>

fun py_add :: "int \<Rightarrow> pyval \<Rightarrow> py_error + int" where
  "py_add n (PyInt m) = Inr (n + m)"
| "py_add n _ = Inl TypeError"

text \<open>
  \<open>on_llm_end\<close>.  The three augmented assignments run in the order of the source;
  one that raises leaves the fields assigned before it updated.  The result is the
  exception raised, if any, and the accumulator as the call leaves it.
\<close>

definition on_llm_end :: "response \<Rightarrow> TokenCounterCallback \<Rightarrow> py_error option \<times> TokenCounterCallback" where
  "on_llm_end r self =
     (case llm_output r of
        None \<Rightarrow> (None, self)
      | Some lo \<Rightarrow>
          if \<not> truthy lo then (None, self)
          else
            (case py_get lo ''token_usage'' (PyDict []) of
               Inl e \<Rightarrow> (Some e, self)
             | Inr token_usage \<Rightarrow>
                 (case py_get token_usage ''prompt_tokens'' (PyInt 0) of
                    Inl e \<Rightarrow> (Some e, self)
                  | Inr v1 \<Rightarrow>
                 (case py_add (prompt_tokens self) v1 of
                    Inl e \<Rightarrow> (Some e, self)
                  | Inr p \<Rightarrow>
                 (let self1 = self\<lparr>prompt_tokens := p\<rparr> in
                 (case py_get token_usage ''completion_tokens'' (PyInt 0) of
                    Inl e \<Rightarrow> (Some e, self1)
                  | Inr v2 \<Rightarrow>
                 (case py_add (completion_tokens self1) v2 of
                    Inl e \<Rightarrow> (Some e, self1)
                  | Inr c \<Rightarrow>
                 (let self2 = self1\<lparr>completion_tokens := c\<rparr> in
                 (case py_get token_usage ''total_tokens'' (PyInt 0) of
                    Inl e \<Rightarrow> (Some e, self2)
                  | Inr v3 \<Rightarrow>
                 (case py_add (total_tokens self2) v3 of
                    Inl e \<Rightarrow> (Some e, self2)
                  | Inr t \<Rightarrow> (None, self2\<lparr>total_tokens := t\<rparr>)))))))))))"

text \<open>
  \<open>print_usage\<close>: the text written to standard output, each \<open>print\<close> ending its
  line.
\<close>

definition rule50 :: string where
  "rule50 = replicate 50 CHR ''=''"

definition print_usage :: "TokenCounterCallback \<Rightarrow> string" where
  "print_usage self =
     NL @ rule50 @ NL @
     ''TOKENS UTILIZADOS:'' @ NL @
     ''  Prompt tokens: '' @ str_int (prompt_tokens self) @ NL @
     ''  Completion tokens: '' @ str_int (completion_tokens self) @ NL @
     ''  Total tokens: '' @ str_int (total_tokens self) @ NL @
     rule50 @ NL @ NL"

text \<open>A run of completion events, each delivered to \<open>on_llm_end\<close> in turn.\<close>

fun completions :: "response list \<Rightarrow> TokenCounterCallback \<Rightarrow> TokenCounterCallback" where
  "completions [] self = self"
| "completions (r # rs) self = completions rs (snd (on_llm_end r self))"

section \<open>The collaborators\<close>

text \<open>
  The two hosted services are parameters of the model.  A call either raises an
  exception, of which the program uses only the message \<open>str(e)\<close>, or returns.
\<close>

text \<open>One search result: a dictionary in which each of the three keys may be missing.\<close>

record search_result =
  title :: "string option"
  content :: "string option"
  url :: "string option"

datatype search_reply = SearchRaises string | SearchReturns "search_result list"

text \<open>
  A completion: the \<open>content\<close> of the returned message and the result object that
  the client hands to the callbacks.
\<close>

datatype llm_reply = LLMRaises string | LLMReturns string response

text \<open>
  The model may answer the same prompt differently from one call to the next: its
  reply depends on the prompts it has received before.
\<close>

type_synonym llm = "string list \<Rightarrow> string \<Rightarrow> llm_reply"

text \<open>
  The process environment and the search service, which \<open>search_news\<close> reaches
  through \<open>os.getenv\<close> and \<open>TavilySearchResults\<close>: the service is given the key and
  the query (\<open>max_results\<close> is always 5).
\<close>

record environment =
  TAVILY_API_KEY :: "string option"
  tavily :: "string \<Rightarrow> string \<Rightarrow> search_reply"

text \<open>
  What a turn can change: the accumulator, and the calls made so far to each service
  (the prompts and the queries, oldest first).
\<close>

record world =
  token_counter :: TokenCounterCallback
  llm_calls :: "string list"
  search_calls :: "string list"

text \<open>
  \<open>llm.invoke(prompt, config={"callbacks": [token_counter]})\<close>: on success the client
  delivers the result to \<open>on_llm_end\<close>; an exception raised inside a callback is
  logged by the client and does not reach the caller.
\<close>

definition llm_invoke :: "llm \<Rightarrow> string \<Rightarrow> world \<Rightarrow> (string + string) \<times> world" where
  "llm_invoke llm prompt w =
     (let w' = w\<lparr>llm_calls := llm_calls w @ [prompt]\<rparr>
      in case llm (llm_calls w) prompt of
           LLMRaises e \<Rightarrow> (Inl e, w')
         | LLMReturns c r \<Rightarrow>
             (Inr c, w'\<lparr>token_counter := snd (on_llm_end r (token_counter w))\<rparr>))"

section \<open>search_news\<close>

definition format_result :: "nat \<times> search_result \<Rightarrow> string" where
  "format_result p =
     (case p of (i, result) \<Rightarrow>
        str_nat i @ ''. '' @ (case title result of None \<Rightarrow> ''Sem t'' @ [CHR 0xED] @ ''tulo'' | Some t \<Rightarrow> t) @
        NL @ ''   '' @ (case content result of None \<Rightarrow> ''Sem conte'' @ [CHR 0xFA] @ ''do'' | Some c \<Rightarrow> c) @
        NL @ ''   Fonte: '' @ (case url result of None \<Rightarrow> [] | Some u \<Rightarrow> u))"

definition no_key_message :: string where
  "no_key_message = ''ERRO: TAVILY_API_KEY n'' @ [CHR 0xE3] @ ''o encontrada no arquivo .env''"

definition no_news_message :: string where
  "no_news_message =
     ''Nenhuma not'' @ [CHR 0xED] @ ''cia encontrada para este t'' @ [CHR 0xF3] @ ''pico.''"

text \<open>Lines 46 to 53: the results numbered from 1, one block each, a blank line between.\<close>

definition format_results :: "search_result list \<Rightarrow> string" where
  "format_results results =
     py_join (NL @ NL) (map format_result (zip [1 ..< Suc (length results)] results))"

definition search_news :: "environment \<Rightarrow> string \<Rightarrow> world \<Rightarrow> string \<times> world" where
  "search_news env query w =
     (case TAVILY_API_KEY env of
        None \<Rightarrow> (no_key_message, w)
      | Some tavily_api_key \<Rightarrow>
          if tavily_api_key = [] then (no_key_message, w)
          else
            (let w' = w\<lparr>search_calls := search_calls w @ [query]\<rparr>
             in case tavily env tavily_api_key query of
                  SearchRaises e \<Rightarrow> (''ERRO ao buscar not'' @ [CHR 0xED] @ ''cias: '' @ e, w')
                | SearchReturns results \<Rightarrow>
                    if results = [] then (no_news_message, w')
                    else (format_results results, w')))"

section \<open>analyze_sentiment\<close>

definition analyze_prompt :: "string \<Rightarrow> string" where
  "analyze_prompt text =
     ''Analise o sentimento do seguinte texto e classifique como POSITIVO ou NEGATIVO.'' @ NL @
     ''Forne'' @ [CHR 0xE7] @ ''a tamb'' @ [CHR 0xE9] @ ''m uma justificativa curta (m'' @ [CHR 0xE1] @
     ''ximo 2 linhas) explicando o porqu'' @ [CHR 0xEA] @ '' da classifica'' @ [CHR 0xE7, CHR 0xE3] @ ''o.'' @ NL @
     NL @
     ''Texto: '' @ text @ NL @
     NL @
     ''Responda no seguinte formato:'' @ NL @
     ''Sentimento: [POSITIVO ou NEGATIVO]'' @ NL @
     ''Justificativa: [explica'' @ [CHR 0xE7, CHR 0xE3] @ ''o curta]'' @ NL @
     NL @
     ''Resposta:''"

definition analyze_sentiment :: "string \<Rightarrow> llm \<Rightarrow> world \<Rightarrow> string \<times> world" where
  "analyze_sentiment text llm w =
     (case llm_invoke llm (analyze_prompt text) w of
        (Inr c, w') \<Rightarrow> (py_strip c, w')
      | (Inl e, w') \<Rightarrow> (''ERRO ao analisar sentimento: '' @ e, w'))"

section \<open>process_request\<close>

definition trigger_words :: "string list" where
  "trigger_words =
     [''analise'', ''sentimento'', ''analisa'', ''o sentimento'',
      ''da not'' @ [CHR 0xED] @ ''cia'', ''desta not'' @ [CHR 0xED] @ ''cia'', ''do texto'']"

text \<open>Lines 80 to 83: the trigger words taken out in turn, then the colons, then \<open>strip\<close>.\<close>

definition text_to_analyze :: "string \<Rightarrow> string" where
  "text_to_analyze user_input =
     py_strip (py_replace (foldl (\<lambda>t word. py_replace t word []) user_input trigger_words) '':'' [])"

definition more_text_message :: string where
  "more_text_message =
     ''Por favor, forne'' @ [CHR 0xE7] @ ''a o texto da not'' @ [CHR 0xED] @ ''cia para an'' @ [CHR 0xE1] @
     ''lise. Exemplo: '' @ [CHR 0x27] @ ''Analise o sentimento: [texto da not'' @ [CHR 0xED] @ ''cia]'' @ [CHR 0x27]"

definition summary_prompt :: "string \<Rightarrow> string" where
  "summary_prompt results =
     ''Com base nos seguintes resultados de busca, crie um resumo MUITO CONCISO (m'' @ [CHR 0xE1] @
     ''ximo 3-5 t'' @ [CHR 0xF3] @ ''picos curtos) das principais not'' @ [CHR 0xED] @ ''cias:'' @ NL @
     NL @
     ''Resultados: '' @ results @ NL @
     NL @
     ''IMPORTANTE: Seja extremamente breve, m'' @ [CHR 0xE1] @ ''ximo 3-5 bullet points!'' @ NL @
     NL @
     ''Resumo:''"

definition sentiment_prompt :: "string \<Rightarrow> string" where
  "sentiment_prompt summary =
     ''Analise o sentimento geral das seguintes not'' @ [CHR 0xED] @
     ''cias e classifique como POSITIVO ou NEGATIVO.'' @ NL @
     ''Forne'' @ [CHR 0xE7] @ ''a uma justificativa curta (m'' @ [CHR 0xE1] @ ''ximo 1 linha).'' @ NL @
     NL @
     ''Not'' @ [CHR 0xED] @ ''cias: '' @ summary @ NL @
     NL @
     ''Responda no formato:'' @ NL @
     ''Sentimento: [POSITIVO ou NEGATIVO]'' @ NL @
     ''Justificativa: [explica'' @ [CHR 0xE7, CHR 0xE3] @ ''o curta em 1 linha]'' @ NL @
     NL @
     ''Resposta:''"

definition general_prompt :: "string \<Rightarrow> string" where
  "general_prompt user_input =
     ''Voc'' @ [CHR 0xEA] @ '' '' @ [CHR 0xE9] @ '' um assistente de not'' @ [CHR 0xED] @
     ''cias. Responda '' @ [CHR 0xE0] @ '' seguinte pergunta de forma breve:'' @ NL @
     NL @
     user_input @ NL @
     NL @
     ''Resposta:''"

definition final_report :: "string \<Rightarrow> string \<Rightarrow> string" where
  "final_report summary sentiment =
     summary @ NL @ NL @ rule50 @ NL @
     ''AN'' @ [CHR 0xC1] @ ''LISE DE SENTIMENTO'' @ NL @ rule50 @ NL @ sentiment"

text \<open>The body of the first branch, lines 80 to 89.\<close>

definition sentiment_branch :: "string \<Rightarrow> llm \<Rightarrow> world \<Rightarrow> string \<times> world" where
  "sentiment_branch user_input llm w =
     (let t = text_to_analyze user_input
      in if length t < 20 then (more_text_message, w)
         else analyze_sentiment t llm w)"

text \<open>The body of the second branch, lines 92 to 125.\<close>

definition news_branch :: "environment \<Rightarrow> string \<Rightarrow> llm \<Rightarrow> world \<Rightarrow> string \<times> world" where
  "news_branch env user_input llm w =
     (case search_news env user_input w of (results, w1) \<Rightarrow>
        if startswith results ''ERRO'' then (results, w1)
        else
          (case llm_invoke llm (summary_prompt results) w1 of
             (Inl e, w2) \<Rightarrow> (''ERRO ao processar resultados: '' @ e, w2)
           | (Inr summary, w2) \<Rightarrow>
               (case llm_invoke llm (sentiment_prompt summary) w2 of
                  (Inl e, w3) \<Rightarrow> (''ERRO ao processar resultados: '' @ e, w3)
                | (Inr c, w3) \<Rightarrow> (final_report summary (py_strip c), w3))))"

text \<open>The body of the last branch, lines 128 to 138.\<close>

definition general_branch :: "string \<Rightarrow> llm \<Rightarrow> world \<Rightarrow> string \<times> world" where
  "general_branch user_input llm w =
     (case llm_invoke llm (general_prompt user_input) w of
        (Inr c, w') \<Rightarrow> (c, w')
      | (Inl e, w') \<Rightarrow> (''ERRO: '' @ e, w'))"

definition process_request :: "environment \<Rightarrow> string \<Rightarrow> llm \<Rightarrow> world \<Rightarrow> string \<times> world" where
  "process_request env user_input llm w =
     (let user_lower = py_lower user_input
      in if py_in ''analise'' user_lower \<or> py_in ''sentimento'' user_lower \<or> py_in ''analisa'' user_lower
         then sentiment_branch user_input llm w
         else if py_in ''busque'' user_lower \<or> py_in ''buscar'' user_lower
                 \<or> py_in (''not'' @ [CHR 0xED] @ ''cias'') user_lower
                 \<or> py_in ''noticias'' user_lower \<or> py_in ''procure'' user_lower
         then news_branch env user_input llm w
         else general_branch user_input llm w)"

section \<open>The router of the specification\<close>

datatype intent = SentimentAnalysis | NewsSearch | GeneralQuery

definition sentiment_keywords :: "string list" where
  "sentiment_keywords = [''analise'', ''analisa'', ''sentimento'']"

definition news_keywords :: "string list" where
  "news_keywords =
     [''busque'', ''buscar'', ''not'' @ [CHR 0xED] @ ''cias'', ''noticias'', ''procure'']"

text \<open>
  \<open>route_spec\<close> follows the specification's words, not the source: the lower-cased
  input is matched against the first keyword set, then against the second, and the
  first rule that matches wins.
\<close>

definition route_spec :: "string \<Rightarrow> intent" where
  "route_spec input =
     (let l = py_lower input
      in if list_ex (\<lambda>k. py_in k l) sentiment_keywords then SentimentAnalysis
         else if list_ex (\<lambda>k. py_in k l) news_keywords then NewsSearch
         else GeneralQuery)"

section \<open>Completion events\<close>

text \<open>A completion event that reports all three counts.\<close>

definition usage_event :: "int \<Rightarrow> int \<Rightarrow> int \<Rightarrow> response" where
  "usage_event p c t =
     \<lparr>llm_output = Some (PyDict [(''token_usage'',
        PyDict [(''prompt_tokens'', PyInt p), (''completion_tokens'', PyInt c),
                (''total_tokens'', PyInt t)])])\<rparr>"

text \<open>
  The counts an event reports are the integers under the three keys of its
  \<open>token_usage\<close> dictionary; \<open>nonneg_counts\<close> holds when none of them is negative.
\<close>

fun nonneg :: "pyval \<Rightarrow> bool" where
  "nonneg (PyInt n) = (0 \<le> n)"
| "nonneg _ = True"

definition usage_keys :: "string list" where
  "usage_keys = [''prompt_tokens'', ''completion_tokens'', ''total_tokens'']"

definition nonneg_counts :: "response \<Rightarrow> bool" where
  "nonneg_counts r =
     (case llm_output r of
        Some (PyDict d) \<Rightarrow>
          (case map_of d ''token_usage'' of
             Some (PyDict tu) \<Rightarrow>
               list_all (\<lambda>k. case map_of tu k of None \<Rightarrow> True | Some v \<Rightarrow> nonneg v) usage_keys
           | _ \<Rightarrow> True)
      | _ \<Rightarrow> True)"

text \<open>The block that \<open>print_usage\<close> writes for given counts.\<close>

definition usage_report :: "int \<Rightarrow> int \<Rightarrow> int \<Rightarrow> string" where
  "usage_report p c t =
     NL @ rule50 @ NL @
     ''TOKENS UTILIZADOS:'' @ NL @
     ''  Prompt tokens: '' @ str_int p @ NL @
     ''  Completion tokens: '' @ str_int c @ NL @
     ''  Total tokens: '' @ str_int t @ NL @
     rule50 @ NL @ NL"

section \<open>Scripted collaborators\<close>

text \<open>What the caller sees of a completion: the exception's message or the content.\<close>

fun outcome :: "llm_reply \<Rightarrow> string + string" where
  "outcome (LLMRaises e) = Inl e"
| "outcome (LLMReturns c r) = Inr c"

text \<open>
  Collaborators with a fixed behaviour, for running the program on concrete inputs:
  a search service that gives the same reply to every query, a model that answers its
  calls from a list of replies in order, and the state of a process that has just
  started.
\<close>

definition env_of :: "string option \<Rightarrow> search_reply \<Rightarrow> environment" where
  "env_of key reply = \<lparr>TAVILY_API_KEY = key, tavily = (\<lambda>k q. reply)\<rparr>"

definition llm_script :: "llm_reply list \<Rightarrow> llm" where
  "llm_script replies h p =
     (if length h < length replies then replies ! length h else LLMRaises ''no reply'')"

definition world0 :: world where
  "world0 = \<lparr>token_counter = init_counter, llm_calls = [], search_calls = []\<rparr>"

definition busque_economia :: string where
  "busque_economia = ''Busque not'' @ [CHR 0xED] @ ''cias sobre economia''"

section \<open>One replacement pass, stated by occurrences\<close>



section \<open>Properties of the usage accumulator\<close>

lemma on_llm_end_usage_event:
  "on_llm_end (usage_event p c t) self =
     (None, self\<lparr>prompt_tokens := prompt_tokens self + p,
                 completion_tokens := completion_tokens self + c,
                 total_tokens := total_tokens self + t\<rparr>)"
  by (simp add: on_llm_end_def usage_event_def)

lemma completions_usage_events:
  "completions (map (\<lambda>(p, c, t). usage_event p c t) us) self =
     self\<lparr>prompt_tokens := prompt_tokens self + (\<Sum>(p, c, t)\<leftarrow>us. p),
          completion_tokens := completion_tokens self + (\<Sum>(p, c, t)\<leftarrow>us. c),
          total_tokens := total_tokens self + (\<Sum>(p, c, t)\<leftarrow>us. t)\<rparr>"
proof (induction us arbitrary: self)
  case Nil
  show ?case by simp
next
  case (Cons u us)
  obtain p c t where u: "u = (p, c, t)" by (cases u) auto
  show ?case
    by (simp add: u on_llm_end_usage_event Cons.IH add.assoc)
qed

lemma py_add_case:
  "py_add n v = (case v of PyInt m \<Rightarrow> Inr (n + m) | _ \<Rightarrow> Inl TypeError)"
  by (cases v) simp_all

lemma on_llm_end_mono:
  assumes "nonneg_counts r"
  shows "prompt_tokens self \<le> prompt_tokens (snd (on_llm_end r self)) \<and>
         completion_tokens self \<le> completion_tokens (snd (on_llm_end r self)) \<and>
         total_tokens self \<le> total_tokens (snd (on_llm_end r self))"
proof (cases "llm_output r")
  case None
  then show ?thesis by (simp add: on_llm_end_def)
next
  case (Some lo)
  show ?thesis
  proof (cases lo)
    case (PyDict d)
    show ?thesis
    proof (cases "map_of d ''token_usage''")
      case None
      with Some PyDict show ?thesis
        by (simp add: on_llm_end_def)
    next
      case Some': (Some tuv)
      show ?thesis
      proof (cases tuv)
        case tu: (PyDict tu)
        from assms Some PyDict Some' tu
        have "list_all (\<lambda>k. case map_of tu k of None \<Rightarrow> True | Some v \<Rightarrow> nonneg v) usage_keys"
          by (simp add: nonneg_counts_def)
        then have k1: "case map_of tu ''prompt_tokens'' of None \<Rightarrow> True | Some v \<Rightarrow> nonneg v"
          and k2: "case map_of tu ''completion_tokens'' of None \<Rightarrow> True | Some v \<Rightarrow> nonneg v"
          and k3: "case map_of tu ''total_tokens'' of None \<Rightarrow> True | Some v \<Rightarrow> nonneg v"
          by (simp_all add: usage_keys_def)
        show ?thesis
          using Some PyDict Some' tu k1 k2 k3
          by (auto simp add: on_llm_end_def py_add_case Let_def split: option.splits pyval.splits)
      qed (use Some PyDict Some' in \<open>simp_all add: on_llm_end_def\<close>)
    qed
  qed (use Some in \<open>simp_all add: on_llm_end_def\<close>)
qed

lemma completions_append:
  "completions (rs @ rs') self = completions rs' (completions rs self)"
  by (induction rs arbitrary: self) simp_all

lemma completions_mono:
  "list_all nonneg_counts rs \<Longrightarrow>
     prompt_tokens self \<le> prompt_tokens (completions rs self) \<and>
     completion_tokens self \<le> completion_tokens (completions rs self) \<and>
     total_tokens self \<le> total_tokens (completions rs self)"
proof (induction rs arbitrary: self)
  case Nil
  show ?case by simp
next
  case (Cons r rs)
  from Cons.prems have r: "nonneg_counts r" and rs: "list_all nonneg_counts rs"
    by simp_all
  from on_llm_end_mono [OF r, of self] Cons.IH [OF rs, of "snd (on_llm_end r self)"]
  show ?case by simp
qed

text \<open>
  C5: over any sequence of completion events whose reported counts are not negative,
  the fields \<open>prompt_tokens\<close>, \<open>completion_tokens\<close> and \<open>total_tokens\<close> never
  decrease: after \<open>j\<close> events each is at least what it was after \<open>i \<le> j\<close> events,
  so every single \<open>on_llm_end\<close> call leaves each field at or above its previous value.
\<close>

theorem usage_fields_never_decrease:
  assumes "list_all nonneg_counts rs" and "i \<le> j"
  shows "prompt_tokens (completions (take i rs) self) \<le> prompt_tokens (completions (take j rs) self) \<and>
         completion_tokens (completions (take i rs) self) \<le> completion_tokens (completions (take j rs) self) \<and>
         total_tokens (completions (take i rs) self) \<le> total_tokens (completions (take j rs) self)"
proof -
  from \<open>i \<le> j\<close> have "take j rs = take i rs @ take (j - i) (drop i rs)"
    by (metis le_add_diff_inverse take_add)
  moreover from assms(1) have "list_all nonneg_counts (take (j - i) (drop i rs))"
    by (auto simp: list_all_iff dest: in_set_takeD in_set_dropD)
  ultimately show ?thesis
    using completions_mono [of "take (j - i) (drop i rs)" "completions (take i rs) self"]
    by (simp add: completions_append)
qed

theorem usage_fields_never_decrease_witness:
  "list_all nonneg_counts [usage_event 3 4 7, \<lparr>llm_output = None\<rparr>, usage_event 0 2 2] \<and> (1::nat) \<le> 3 \<and>
   prompt_tokens (completions (take 1 [usage_event 3 4 7, \<lparr>llm_output = None\<rparr>, usage_event 0 2 2]) init_counter)
     \<le> prompt_tokens (completions (take 3 [usage_event 3 4 7, \<lparr>llm_output = None\<rparr>, usage_event 0 2 2]) init_counter)"
proof -
  have h: "list_all nonneg_counts [usage_event 3 4 7, \<lparr>llm_output = None\<rparr>, usage_event 0 2 2]"
    by (simp add: nonneg_counts_def usage_event_def usage_keys_def)
  have l: "(1::nat) \<le> 3" by simp
  from usage_fields_never_decrease [OF h l, of init_counter] h l show ?thesis by blast
qed

text \<open>
  C6: after the completion events \<open>us\<close>, each reporting its three counts, every field
  of the accumulator is the sum of the counts reported for it, and \<open>print_usage\<close>
  writes these sums; after no event the three fields are zero.
\<close>

theorem accumulator_reports_sums:
  "prompt_tokens (completions (map (\<lambda>(p, c, t). usage_event p c t) us) init_counter) = (\<Sum>(p, c, t)\<leftarrow>us. p) \<and>
   completion_tokens (completions (map (\<lambda>(p, c, t). usage_event p c t) us) init_counter) = (\<Sum>(p, c, t)\<leftarrow>us. c) \<and>
   total_tokens (completions (map (\<lambda>(p, c, t). usage_event p c t) us) init_counter) = (\<Sum>(p, c, t)\<leftarrow>us. t) \<and>
   print_usage (completions (map (\<lambda>(p, c, t). usage_event p c t) us) init_counter) =
     usage_report (\<Sum>(p, c, t)\<leftarrow>us. p) (\<Sum>(p, c, t)\<leftarrow>us. c) (\<Sum>(p, c, t)\<leftarrow>us. t) \<and>
   completions [] init_counter = \<lparr>total_tokens = 0, prompt_tokens = 0, completion_tokens = 0\<rparr>"
  by (simp add: completions_usage_events init_counter_def print_usage_def usage_report_def)

lemma on_llm_end_without_output:
  "llm_output r = None \<or> llm_output r = Some PyNone \<or> llm_output r = Some (PyDict []) \<Longrightarrow>
     on_llm_end r self = (None, self)"
  by (auto simp add: on_llm_end_def)

lemma on_llm_end_without_token_usage:
  "llm_output r = Some (PyDict d) \<Longrightarrow> map_of d ''token_usage'' = None \<Longrightarrow>
     on_llm_end r self = (None, self)"
  by (simp add: on_llm_end_def)

lemma on_llm_end_without_counts:
  "llm_output r = Some (PyDict d) \<Longrightarrow> map_of d ''token_usage'' = Some (PyDict tu) \<Longrightarrow>
   map_of tu ''prompt_tokens'' = None \<Longrightarrow> map_of tu ''completion_tokens'' = None \<Longrightarrow>
   map_of tu ''total_tokens'' = None \<Longrightarrow>
     on_llm_end r self = (None, self)"
  by (auto simp add: on_llm_end_def)

text \<open>
  C8, as the code has it: a completion event that carries no usage metadata should add
  nothing and raise nothing.  The code does so when \<open>llm_output\<close> or its
  \<open>token_usage\<close> entry or the counts are absent (the lemmas above), since the
  defaults of \<open>get\<close> then apply.  They do not apply to a key that is present and holds
  \<open>None\<close>: for a \<open>token_usage\<close> entry of \<open>None\<close> the call raises \<open>AttributeError\<close>, and
  for a count of \<open>None\<close> it raises \<open>TypeError\<close>, whatever the accumulator holds.
\<close>

theorem token_usage_none_raises:
  "on_llm_end \<lparr>llm_output = Some (PyDict [(''token_usage'', PyNone),
                                           (''model_name'', PyStr ''ministral-8b-latest'')])\<rparr> self =
     (Some AttributeError, self) \<and>
   on_llm_end \<lparr>llm_output = Some (PyDict [(''token_usage'', PyDict [(''prompt_tokens'', PyNone)])])\<rparr> self =
     (Some TypeError, self)"
  by (simp add: on_llm_end_def)

section \<open>Properties of the request handler\<close>

lemma process_request_cases:
  "process_request env u llm w =
     (case route_spec u of
        SentimentAnalysis \<Rightarrow> sentiment_branch u llm w
      | NewsSearch \<Rightarrow> news_branch env u llm w
      | GeneralQuery \<Rightarrow> general_branch u llm w)"
  by (auto simp add: process_request_def route_spec_def sentiment_keywords_def news_keywords_def Let_def)

lemma not_erro_no_news: "\<not> startswith no_news_message ''ERRO''"
  by (simp add: startswith_def no_news_message_def)

lemma erro_no_key: "startswith no_key_message ''ERRO''"
  by (simp add: startswith_def no_key_message_def)

lemma py_join_Cons: "\<exists>rest. py_join sep (x # xs) = x @ rest"
  by (cases xs) simp_all

lemma str_nat_1: "str_nat (Suc 0) = ''1''"
  by code_simp

lemma format_results_first:
  assumes "rs \<noteq> []"
  shows "\<exists>rest. format_results rs = CHR ''1'' # rest"
proof -
  from assms obtain r rs' where rs: "rs = r # rs'" by (cases rs) auto
  have "\<exists>z. zip [1 ..< Suc (length rs)] rs = (1, r) # z"
    by (simp add: rs upt_conv_Cons del: upt_Suc)
  then obtain z where z: "zip [1 ..< Suc (length rs)] rs = (1, r) # z" ..
  obtain rest where "py_join (NL @ NL) (format_result (1, r) # map format_result z) = format_result (1, r) @ rest"
    using py_join_Cons by blast
  then have "format_results rs = format_result (1, r) @ rest"
    unfolding format_results_def z by simp
  then show ?thesis
    by (simp add: format_result_def str_nat_1 del: str_nat.simps)
qed

lemma not_erro_format_results: "rs \<noteq> [] \<Longrightarrow> \<not> startswith (format_results rs) ''ERRO''"
  using format_results_first [of rs] by (auto simp add: startswith_def)


lemma search_news_no_key:
  "TAVILY_API_KEY env = None \<or> TAVILY_API_KEY env = Some [] \<Longrightarrow>
     search_news env q w = (no_key_message, w)"
  by (auto simp add: search_news_def)

lemma search_news_raises:
  "TAVILY_API_KEY env = Some k \<Longrightarrow> k \<noteq> [] \<Longrightarrow> tavily env k q = SearchRaises e \<Longrightarrow>
     search_news env q w =
       (''ERRO ao buscar not'' @ [CHR 0xED] @ ''cias: '' @ e, w\<lparr>search_calls := search_calls w @ [q]\<rparr>)"
  by (simp add: search_news_def)

lemma search_news_returns:
  "TAVILY_API_KEY env = Some k \<Longrightarrow> k \<noteq> [] \<Longrightarrow> tavily env k q = SearchReturns rs \<Longrightarrow>
     search_news env q w =
       (if rs = [] then no_news_message else format_results rs, w\<lparr>search_calls := search_calls w @ [q]\<rparr>)"
  by (simp add: search_news_def)

lemma search_news_returns_not_erro:
  assumes "TAVILY_API_KEY env = Some k" "k \<noteq> []" "tavily env k q = SearchReturns rs"
  shows "\<not> startswith (fst (search_news env q w)) ''ERRO''"
    and "llm_calls (snd (search_news env q w)) = llm_calls w"
  using assms not_erro_no_news not_erro_format_results [of rs]
  by (simp_all add: search_news_returns)

lemma llm_invoke_raises:
  "llm (llm_calls w) p = LLMRaises e \<Longrightarrow>
     llm_invoke llm p w = (Inl e, w\<lparr>llm_calls := llm_calls w @ [p]\<rparr>)"
  by (simp add: llm_invoke_def)

lemma llm_invoke_returns:
  "llm (llm_calls w) p = LLMReturns c r \<Longrightarrow>
     llm_invoke llm p w =
       (Inr c, w\<lparr>llm_calls := llm_calls w @ [p],
                  token_counter := snd (on_llm_end r (token_counter w))\<rparr>)"
  by (simp add: llm_invoke_def)

lemma llm_invoke_calls:
  "llm_calls (snd (llm_invoke llm p w)) = llm_calls w @ [p]"
  by (simp add: llm_invoke_def Let_def split: llm_reply.splits)

lemma news_branch_search_raises:
  assumes "TAVILY_API_KEY env = Some k" "k \<noteq> []" "tavily env k u = SearchRaises e"
  shows "fst (news_branch env u llm w) = ''ERRO ao buscar not'' @ [CHR 0xED] @ ''cias: '' @ e"
    and "llm_calls (snd (news_branch env u llm w)) = llm_calls w"
  using assms by (simp_all add: news_branch_def search_news_raises startswith_def)

lemma news_branch_summary_raises:
  assumes "TAVILY_API_KEY env = Some k" "k \<noteq> []" "tavily env k u = SearchReturns rs"
    and "llm (llm_calls w) (summary_prompt (fst (search_news env u w))) = LLMRaises e"
  shows "fst (news_branch env u llm w) = ''ERRO ao processar resultados: '' @ e"
proof -
  obtain R w1 where s: "search_news env u w = (R, w1)" by (cases "search_news env u w")
  from search_news_returns_not_erro [OF assms(1-3), of w] s
  have ne: "\<not> startswith R ''ERRO''" and lc: "llm_calls w1 = llm_calls w" by simp_all
  from assms(4) s lc have "llm (llm_calls w1) (summary_prompt R) = LLMRaises e" by simp
  then show ?thesis
    by (simp add: news_branch_def s ne llm_invoke_raises)
qed

lemma news_branch_sentiment_raises:
  assumes "TAVILY_API_KEY env = Some k" "k \<noteq> []" "tavily env k u = SearchReturns rs"
    and "llm (llm_calls w) (summary_prompt (fst (search_news env u w))) = LLMReturns summary resp"
    and "llm (llm_calls w @ [summary_prompt (fst (search_news env u w))]) (sentiment_prompt summary) = LLMRaises e"
  shows "fst (news_branch env u llm w) = ''ERRO ao processar resultados: '' @ e"
proof -
  obtain R w1 where s: "search_news env u w = (R, w1)" by (cases "search_news env u w")
  from search_news_returns_not_erro [OF assms(1-3), of w] s
  have ne: "\<not> startswith R ''ERRO''" and lc: "llm_calls w1 = llm_calls w" by simp_all
  from assms(4) s lc have a: "llm (llm_calls w1) (summary_prompt R) = LLMReturns summary resp" by simp
  from assms(5) s lc have b: "llm (llm_calls w1 @ [summary_prompt R]) (sentiment_prompt summary) = LLMRaises e" by simp
  show ?thesis
    by (simp add: news_branch_def s ne llm_invoke_returns [of llm w1 "summary_prompt R", OF a]
          llm_invoke_raises b)
qed

lemma analyze_sentiment_outcome:
  "fst (analyze_sentiment text llm w) =
     (case outcome (llm (llm_calls w) (analyze_prompt text)) of
        Inr c \<Rightarrow> py_strip c
      | Inl e \<Rightarrow> ''ERRO ao analisar sentimento: '' @ e)"
  by (simp add: analyze_sentiment_def llm_invoke_def Let_def split: llm_reply.splits)

text \<open>
  C2: the handler takes its branch by the router of the specification: the sentiment
  branch when the lower-cased input contains "analise", "analisa" or "sentimento";
  otherwise the news branch when it contains "busque", "buscar", "noticias" with or
  without its accent, or "procure"; otherwise the general branch.
\<close>

theorem router_follows_keyword_priority:
  "process_request env u llm w =
     (case route_spec u of
        SentimentAnalysis \<Rightarrow> sentiment_branch u llm w
      | NewsSearch \<Rightarrow> news_branch env u llm w
      | GeneralQuery \<Rightarrow> general_branch u llm w)"
  by (rule process_request_cases)

text \<open>
  C4: an input routed to sentiment analysis whose text, once the trigger phrases are
  taken out, has fewer than 20 characters gets the fixed message asking for more text;
  the state is untouched, so no call reaches the model.
\<close>

theorem short_sentiment_text_asks_for_more:
  assumes "route_spec u = SentimentAnalysis" and "length (text_to_analyze u) < 20"
  shows "process_request env u llm w = (more_text_message, w)"
  using assms by (simp add: process_request_cases sentiment_branch_def)

theorem short_sentiment_text_asks_for_more_witness:
  "route_spec ''analise isto'' = SentimentAnalysis \<and>
   length (text_to_analyze ''analise isto'') < 20 \<and>
   process_request (env_of None (SearchReturns [])) ''analise isto'' (llm_script []) world0 =
     (more_text_message, world0)"
proof -
  have a: "route_spec ''analise isto'' = SentimentAnalysis" by code_simp
  have b: "length (text_to_analyze ''analise isto'') < 20" by code_simp
  from short_sentiment_text_asks_for_more [OF a b] a b show ?thesis by blast
qed

text \<open>
  C7: in a news-search turn without the search credential (unset, or set to the empty
  string) the handler returns the configuration error, which starts with "ERRO", and
  neither the search service nor the model is called.
\<close>

theorem missing_search_key_reports_error:
  assumes "route_spec u = NewsSearch"
    and "TAVILY_API_KEY env = None \<or> TAVILY_API_KEY env = Some []"
  shows "process_request env u llm w = (no_key_message, w) \<and>
         startswith no_key_message ''ERRO'' \<and>
         search_calls (snd (process_request env u llm w)) = search_calls w \<and>
         llm_calls (snd (process_request env u llm w)) = llm_calls w"
  using assms erro_no_key
  by (simp add: process_request_cases news_branch_def search_news_no_key)

theorem missing_search_key_reports_error_witness:
  "route_spec busque_economia = NewsSearch \<and>
   (TAVILY_API_KEY (env_of None (SearchReturns [])) = None \<or>
    TAVILY_API_KEY (env_of None (SearchReturns [])) = Some []) \<and>
   process_request (env_of None (SearchReturns [])) busque_economia (llm_script []) world0 =
     (no_key_message, world0) \<and>
   llm_calls (snd (process_request (env_of None (SearchReturns [])) busque_economia (llm_script []) world0)) =
     llm_calls world0"
proof -
  have a: "route_spec busque_economia = NewsSearch" by code_simp
  have b: "TAVILY_API_KEY (env_of None (SearchReturns [])) = None \<or>
           TAVILY_API_KEY (env_of None (SearchReturns [])) = Some []"
    by (simp add: env_of_def)
  from missing_search_key_reports_error [OF a b] a b show ?thesis by blast
qed

text \<open>
  C3: in a news-search turn with the credential present, when the search call, the
  summarization call or the sentiment call fails, the handler returns a string that
  starts with "ERRO" and consists of a fixed prefix and the failure's own message:
  neither the search results nor the summary already computed are part of it.
\<close>

theorem news_failure_returns_erro_only:
  assumes "route_spec u = NewsSearch" and "TAVILY_API_KEY env = Some k" and "k \<noteq> []"
  shows "(tavily env k u = SearchRaises e \<longrightarrow>
            fst (process_request env u llm w) = ''ERRO ao buscar not'' @ [CHR 0xED] @ ''cias: '' @ e \<and>
            startswith (fst (process_request env u llm w)) ''ERRO'' \<and>
            llm_calls (snd (process_request env u llm w)) = llm_calls w) \<and>
         (tavily env k u = SearchReturns rs \<and>
          llm (llm_calls w) (summary_prompt (fst (search_news env u w))) = LLMRaises e \<longrightarrow>
            fst (process_request env u llm w) = ''ERRO ao processar resultados: '' @ e \<and>
            startswith (fst (process_request env u llm w)) ''ERRO'') \<and>
         (tavily env k u = SearchReturns rs \<and>
          llm (llm_calls w) (summary_prompt (fst (search_news env u w))) = LLMReturns summary resp \<and>
          llm (llm_calls w @ [summary_prompt (fst (search_news env u w))]) (sentiment_prompt summary) = LLMRaises e \<longrightarrow>
            fst (process_request env u llm w) = ''ERRO ao processar resultados: '' @ e \<and>
            startswith (fst (process_request env u llm w)) ''ERRO'')"
  using assms(1)
    news_branch_search_raises [OF assms(2,3), of u e llm w]
    news_branch_summary_raises [OF assms(2,3), of u rs llm w e]
    news_branch_sentiment_raises [OF assms(2,3), of u rs llm w summary resp e]
  by (simp add: process_request_cases startswith_def)

theorem news_failure_returns_erro_only_witness:
  "route_spec busque_economia = NewsSearch \<and>
   fst (process_request (env_of (Some ''key'') (SearchRaises ''offline'')) busque_economia (llm_script []) world0) =
     ''ERRO ao buscar not'' @ [CHR 0xED] @ ''cias: '' @ ''offline'' \<and>
   fst (process_request (env_of (Some ''key'') (SearchReturns [])) busque_economia
          (llm_script [LLMRaises ''quota'']) world0) =
     ''ERRO ao processar resultados: '' @ ''quota'' \<and>
   fst (process_request (env_of (Some ''key'') (SearchReturns [])) busque_economia
          (llm_script [LLMReturns ''resumo'' \<lparr>llm_output = None\<rparr>, LLMRaises ''timeout'']) world0) =
     ''ERRO ao processar resultados: '' @ ''timeout''"
proof -
  have r: "route_spec busque_economia = NewsSearch" by code_simp
  have k1: "TAVILY_API_KEY (env_of (Some ''key'') (SearchRaises ''offline'')) = Some ''key''"
    and k2: "TAVILY_API_KEY (env_of (Some ''key'') (SearchReturns [])) = Some ''key''"
    and ne: "''key'' \<noteq> []"
    by (simp_all add: env_of_def)
  have s1: "tavily (env_of (Some ''key'') (SearchRaises ''offline'')) ''key'' busque_economia = SearchRaises ''offline''"
    and s2: "tavily (env_of (Some ''key'') (SearchReturns [])) ''key'' busque_economia = SearchReturns []"
    by (simp_all add: env_of_def)
  have l2: "llm_script [LLMRaises ''quota''] (llm_calls world0)
              (summary_prompt (fst (search_news (env_of (Some ''key'') (SearchReturns [])) busque_economia world0))) =
            LLMRaises ''quota''"
    by (simp add: llm_script_def world0_def)
  have l3: "llm_script [LLMReturns ''resumo'' \<lparr>llm_output = None\<rparr>, LLMRaises ''timeout''] (llm_calls world0)
              (summary_prompt (fst (search_news (env_of (Some ''key'') (SearchReturns [])) busque_economia world0))) =
            LLMReturns ''resumo'' \<lparr>llm_output = None\<rparr>"
    by (simp add: llm_script_def world0_def)
  have l4: "llm_script [LLMReturns ''resumo'' \<lparr>llm_output = None\<rparr>, LLMRaises ''timeout'']
              (llm_calls world0 @
               [summary_prompt (fst (search_news (env_of (Some ''key'') (SearchReturns [])) busque_economia world0))])
              (sentiment_prompt ''resumo'') =
            LLMRaises ''timeout''"
    by (simp add: llm_script_def world0_def)
  from news_failure_returns_erro_only [OF r k1 ne, where e = "''offline''" and llm = "llm_script []" and w = world0] s1
  have c1: "fst (process_request (env_of (Some ''key'') (SearchRaises ''offline'')) busque_economia (llm_script []) world0) =
     ''ERRO ao buscar not'' @ [CHR 0xED] @ ''cias: '' @ ''offline''"
    by blast
  from news_failure_returns_erro_only [OF r k2 ne, where rs = "[]" and llm = "llm_script [LLMRaises ''quota'']"
         and w = world0 and e = "''quota''"] s2 l2
  have c2: "fst (process_request (env_of (Some ''key'') (SearchReturns [])) busque_economia
          (llm_script [LLMRaises ''quota'']) world0) = ''ERRO ao processar resultados: '' @ ''quota''"
    by blast
  from news_failure_returns_erro_only [OF r k2 ne, where rs = "[]"
         and llm = "llm_script [LLMReturns ''resumo'' \<lparr>llm_output = None\<rparr>, LLMRaises ''timeout'']"
         and w = world0 and e = "''timeout''" and summary = "''resumo''" and resp = "\<lparr>llm_output = None\<rparr>"] s2 l3 l4
  have c3: "fst (process_request (env_of (Some ''key'') (SearchReturns [])) busque_economia
          (llm_script [LLMReturns ''resumo'' \<lparr>llm_output = None\<rparr>, LLMRaises ''timeout'']) world0) =
     ''ERRO ao processar resultados: '' @ ''timeout''"
    by blast
  from r c1 c2 c3 show ?thesis by blast
qed

text \<open>
  C9: with a model whose outcome for a prompt does not depend on the calls made before,
  the sentiment handler gives the same text when it is run again on the same input,
  whatever the state it starts from; so does the sentiment branch of the request
  handler.
\<close>

theorem sentiment_handler_repeatable:
  assumes "\<forall>h h' p. outcome (llm h p) = outcome (llm h' p)"
  shows "fst (analyze_sentiment text llm (snd (analyze_sentiment text llm w))) =
           fst (analyze_sentiment text llm w) \<and>
         fst (analyze_sentiment text llm w') = fst (analyze_sentiment text llm w) \<and>
         fst (sentiment_branch u llm (snd (sentiment_branch u llm w))) =
           fst (sentiment_branch u llm w)"
proof -
  have "\<And>w1 w2 t. fst (analyze_sentiment t llm w1) = fst (analyze_sentiment t llm w2)"
  proof -
    fix w1 w2 :: world and t
    from assms have "outcome (llm (llm_calls w1) (analyze_prompt t)) = outcome (llm (llm_calls w2) (analyze_prompt t))"
      by blast
    then show "fst (analyze_sentiment t llm w1) = fst (analyze_sentiment t llm w2)"
      by (simp add: analyze_sentiment_outcome)
  qed
  then show ?thesis
    by (simp add: sentiment_branch_def Let_def)
qed

theorem sentiment_handler_repeatable_witness:
  "(\<forall>h h' p. outcome (llm_script [] h p) = outcome (llm_script [] h' p)) \<and>
   fst (analyze_sentiment ''a bolsa caiu'' (llm_script [])
          (snd (analyze_sentiment ''a bolsa caiu'' (llm_script []) world0))) =
     fst (analyze_sentiment ''a bolsa caiu'' (llm_script []) world0)"
proof -
  have d: "\<forall>h h' p. outcome (llm_script [] h p) = outcome (llm_script [] h' p)"
    by (simp add: llm_script_def)
  from sentiment_handler_repeatable [OF d, of "''a bolsa caiu''" world0] d show ?thesis by blast
qed

lemma final_report_not_no_news: "final_report s t \<noteq> no_news_message"
proof
  assume "final_report s t = no_news_message"
  then have "set (final_report s t) = set no_news_message" by simp
  moreover have "CHR ''='' \<in> set (final_report s t)"
    by (simp add: final_report_def rule50_def)
  moreover have "CHR ''='' \<notin> set no_news_message"
    by (simp add: no_news_message_def)
  ultimately show False by simp
qed

lemma erro_not_no_news: "''ERRO ao processar resultados: '' @ e \<noteq> no_news_message"
  by (simp add: no_news_message_def)

lemma route_busque_economia: "route_spec busque_economia = NewsSearch"
  by code_simp

text \<open>
  C1, as the code has it: with the credential present and a search that returns no
  result, the handler does not stop at the "no news" message.  It puts the message
  into the summarization prompt and calls the model, so its answer is never that
  message and the first new call to the model carries it as the search results.
\<close>

theorem empty_search_result_goes_to_llm:
  "fst (process_request (env_of (Some ''key'') (SearchReturns [])) busque_economia llm w) \<noteq> no_news_message \<and>
   take (Suc (length (llm_calls w)))
     (llm_calls (snd (process_request (env_of (Some ''key'') (SearchReturns [])) busque_economia llm w))) =
     llm_calls w @ [summary_prompt no_news_message]"
proof -
  let ?env = "env_of (Some ''key'') (SearchReturns [])"
  have s: "search_news ?env busque_economia w =
             (no_news_message, w\<lparr>search_calls := search_calls w @ [busque_economia]\<rparr>)"
    by (simp add: search_news_def env_of_def)
  show ?thesis
    using final_report_not_no_news erro_not_no_news
    by (simp add: process_request_cases route_busque_economia news_branch_def s
          not_erro_no_news llm_invoke_def Let_def split: llm_reply.splits)
qed

section \<open>Properties of the trigger-phrase stripping\<close>

lemma py_in_iff: "py_in sub s \<longleftrightarrow> (\<exists>p q. s = p @ sub @ q)"
proof (induction s)
  case Nil
  show ?case by auto
next
  case (Cons c cs)
  show ?case
  proof
    assume "py_in sub (c # cs)"
    then consider "prefix sub (c # cs)" | "py_in sub cs" by auto
    then show "\<exists>p q. c # cs = p @ sub @ q"
    proof cases
      case 1
      then obtain q where "c # cs = sub @ q" by (auto simp: prefix_def)
      then have "c # cs = [] @ sub @ q" by simp
      then show ?thesis by blast
    next
      case 2
      with Cons.IH obtain p q where "cs = p @ sub @ q" by auto
      then have "c # cs = (c # p) @ sub @ q" by simp
      then show ?thesis by blast
    qed
  next
    assume "\<exists>p q. c # cs = p @ sub @ q"
    then obtain p q where pq: "c # cs = p @ sub @ q" by auto
    show "py_in sub (c # cs)"
    proof (cases p)
      case Nil
      with pq have "prefix sub (c # cs)" by (simp add: prefix_def)
      then show ?thesis by simp
    next
      case (Cons x p')
      with pq have "cs = p' @ sub @ q" by simp
      with Cons.IH have "py_in sub cs" by blast
      then show ?thesis by simp
    qed
  qed
qed




















end
